theory Spec2Isabelle
  imports Complex_Main
begin

section \<open>Data model of the WeFund ledger\<close>

text \<open>
  The backend keeps its state in MongoDB collections. The handlers that move money read
  and write three of them (users, projects, transactions) and the mobile-money service
  writes a fourth (momo\_transfers). Documents of users and projects are addressed by
  their \<open>_id\<close>, so these collections are maps from object ids; transactions are looked
  up by field values (\<open>find_one\<close> returns the first match in insertion order), so that
  collection is a list in insertion order.

  Amounts are Python floats in the source (\<open>amount: float\<close>, with no range check)
  and BSON doubles in the store; both are IEEE 754 binary64 values, modelled by the type
  \<open>double\<close> below, with its NaN, its infinities and its rounding.
  Times (\<open>datetime.utcnow()\<close>) are natural numbers supplied by the caller of a handler,
  one argument per call of the clock.

  A document keeps the fields the money-moving handlers read or write; the descriptive
  fields of a project (description, roi, duration, riskLevel, category, image), the
  contact and verification fields of a user and the provider and phone fields of a
  mobile-money transaction are left out, since no handler modelled here reads them. The
  token check of \<open>get_current_user\<close> is outside the model: a handler receives the
  identity it resolved. Requests are served one at a time.
\<close>

type_synonym oid = nat
type_synonym time = nat

section \<open>Double-precision numbers\<close>

text \<open>
  A binary64 value is a real number, an infinity or NaN (the sign of zero and the payload
  of NaN are left out: no handler can tell them apart). \<open>rnd\<close> is rounding to nearest,
  ties to even: a real \<open>x\<close> with binary exponent \<open>e\<close> (at least - 1022, the subnormal
  range) is rounded to a multiple of \<open>2 powr (e - 52)\<close>, and a result of magnitude
  \<open>2 ^ 1024\<close> is an infinity. Addition is IEEE addition, as done by Python's \<open>+\<close> and
  by MongoDB's \<open>$inc\<close>; Python's \<open>-x\<close> is exact. A comparison with NaN is false.
  The values a request can carry are those \<open>json.loads\<close> produces: the doubles, with
  \<open>NaN\<close> and \<open>Infinity\<close> (also written as a literal too large, such as \<open>1e400\<close>).
\<close>

datatype double = Num real | PosInf | NegInf | NaN

definition round_half_even :: "real \<Rightarrow> int" where
  "round_half_even q =
     (let f = \<lfloor>q\<rfloor>; d = q - of_int f
      in if d < 1 / 2 then f else if 1 / 2 < d then f + 1 else if even f then f else f + 1)"

definition exponent :: "real \<Rightarrow> int" where
  "exponent x = max \<lfloor>log 2 \<bar>x\<bar>\<rfloor> (- 1022)"

definition rnd :: "real \<Rightarrow> double" where
  "rnd x =
     (if x = 0 then Num 0
      else
        let ulp = 2 powr of_int (exponent x - 52);
            y = of_int (round_half_even (x / ulp)) * ulp
        in if 2 ^ 1024 \<le> y then PosInf else if y \<le> - (2 ^ 1024) then NegInf else Num y)"

fun dneg :: "double \<Rightarrow> double" where
  "dneg (Num x) = Num (- x)"
| "dneg PosInf = NegInf"
| "dneg NegInf = PosInf"
| "dneg NaN = NaN"

fun dadd :: "double \<Rightarrow> double \<Rightarrow> double" where
  "dadd NaN b = NaN"
| "dadd a NaN = NaN"
| "dadd (Num x) (Num y) = rnd (x + y)"
| "dadd PosInf NegInf = NaN"
| "dadd NegInf PosInf = NaN"
| "dadd PosInf b = PosInf"
| "dadd a PosInf = PosInf"
| "dadd NegInf b = NegInf"
| "dadd a NegInf = NegInf"

definition dsub :: "double \<Rightarrow> double \<Rightarrow> double" where
  "dsub a b = dadd a (dneg b)"

fun dless :: "double \<Rightarrow> double \<Rightarrow> bool" where
  "dless NaN b = False"
| "dless a NaN = False"
| "dless (Num x) (Num y) = (x < y)"
| "dless a NegInf = False"
| "dless NegInf b = True"
| "dless PosInf b = False"
| "dless a PosInf = True"

fun dle :: "double \<Rightarrow> double \<Rightarrow> bool" where
  "dle NaN b = False"
| "dle a NaN = False"
| "dle (Num x) (Num y) = (x \<le> y)"
| "dle NegInf b = True"
| "dle a NegInf = False"
| "dle a PosInf = True"
| "dle PosInf b = False"

section \<open>Documents, errors and responses\<close>

datatype project_status =
  Pending | Under_review | Approved | Rejected | Open | Funded | Closed | Cancelled

datatype tx_type = TDeposit | TWithdraw | TInvestment | TMomoDeposit | TMobileWithdrawal

text \<open>
  The status of a transaction is a string in the store. The handlers write
  \<open>"completed"\<close> and \<open>"pending"\<close>; \<open>TxFailed\<close> stands for any other value.
\<close>

datatype tx_status = TxPending | TxCompleted | TxFailed

record user =
  name :: string
  email :: string
  age :: int
  role :: string
  walletBalance :: double
  totalInvested :: double
  totalReturns :: double
  user_verified :: bool
  user_blocked :: bool

record investor =
  inv_userId :: oid
  inv_amount :: double
  inv_date :: time

record project =
  title :: string
  fundingGoal :: double
  fundedAmount :: double
  minInvestment :: double
  status :: project_status
  verified :: bool
  blocked :: bool
  investors :: "investor list"

record transaction =
  tx_userId :: oid
  tx_amount :: double
  tx_type :: tx_type
  tx_status :: tx_status
  tx_projectId :: "oid option"
  tx_projectTitle :: "string option"
  tx_date :: time
  transaction_ref :: "string option"
  confirmed_by :: "oid option"
  confirmed_at :: "time option"
  tx_notes :: "string option"

record momo_transfer =
  from_phone :: string
  mt_amount :: double
  mt_transaction_ref :: string
  mt_user_id :: oid
  processed_at :: time

record state =
  users :: "oid \<rightharpoonup> user"
  projects :: "oid \<rightharpoonup> project"
  transactions :: "transaction list"
  momo_transfers :: "momo_transfer list"

text \<open>The identity the auth layer hands to every handler (\<open>current_user\<close>).\<close>

record current_user =
  userId :: oid
  cu_role :: string

text \<open>
  Every \<open>HTTPException\<close> a handler raises is a value. The names are the spec's error
  kinds; the comment gives the \<open>detail\<close> string of the source.
  \<open>ServerError\<close> is an exception no handler catches (a \<open>TypeError\<close> on a document
  that is \<open>None\<close>, a duplicate key), which the framework answers with status 500.
\<close>

datatype error =
    NotFound            \<comment> \<open>404 "Project not found", "Transaction not found", "User not found"\<close>
  | ProjectNotOpen      \<comment> \<open>400 "Project is not open for investment"\<close>
  | BelowMinimum        \<comment> \<open>400 "Minimum investment is ...", "Minimum deposit is 100 XAF", "Minimum withdrawal is 500 XAF"\<close>
  | InsufficientFunds   \<comment> \<open>400 "Insufficient wallet balance", "Insufficient balance"\<close>
  | InvalidAmount       \<comment> \<open>400 "Invalid amount"\<close>
  | AlreadyCompleted    \<comment> \<open>400 "Transaction already completed"\<close>
  | Forbidden           \<comment> \<open>403 "Admin access required"\<close>
  | Underage            \<comment> \<open>400 "You must be at least 15 years old to register"\<close>
  | EmailTaken          \<comment> \<open>400 "Email already registered"\<close>
  | ServerError

datatype response =
    Wallet_tx double transaction       \<comment> \<open>walletBalance, transaction\<close>
  | Invested double double           \<comment> \<open>walletBalance, totalInvested\<close>
  | Confirmed string double oid        \<comment> \<open>transaction\_ref, amount, user\_id\<close>
  | Momo_deposited string double       \<comment> \<open>transaction\_ref, amount\<close>
  | Momo_withdrawn string double double  \<comment> \<open>transaction\_ref, amount, new\_balance\<close>
  | User_doc user
  | Project_doc "project option"
  | Created oid
  | Message

type_synonym outcome = "(error + response) \<times> state"

subsection \<open>Store primitives\<close>

text \<open>
  \<open>update_one\<close> changes the document with the given id and does nothing when there is
  none. On the transaction list, \<open>find_one\<close> returns the first match and
  \<open>update_first\<close> changes the first match only, as MongoDB's \<open>update_one\<close> does.
\<close>

definition update_one :: "('k \<rightharpoonup> 'v) \<Rightarrow> 'k \<Rightarrow> ('v \<Rightarrow> 'v) \<Rightarrow> ('k \<rightharpoonup> 'v)" where
  "update_one c k f = (case c k of None \<Rightarrow> c | Some d \<Rightarrow> c(k \<mapsto> f d))"

definition find_one :: "('a \<Rightarrow> bool) \<Rightarrow> 'a list \<Rightarrow> 'a option" where
  "find_one P xs = List.find P xs"

fun update_first :: "('a \<Rightarrow> bool) \<Rightarrow> ('a \<Rightarrow> 'a) \<Rightarrow> 'a list \<Rightarrow> 'a list" where
  "update_first P f [] = []"
| "update_first P f (x # xs) = (if P x then f x # xs else x # update_first P f xs)"

definition insert_one :: "'a list \<Rightarrow> 'a \<Rightarrow> 'a list" where
  "insert_one xs d = xs @ [d]"

definition new_transaction :: "oid \<Rightarrow> double \<Rightarrow> tx_type \<Rightarrow> tx_status \<Rightarrow> time \<Rightarrow> transaction" where
  "new_transaction uid amt ty st t =
     \<lparr>tx_userId = uid, tx_amount = amt, tx_type = ty, tx_status = st,
      tx_projectId = None, tx_projectTitle = None, tx_date = t,
      transaction_ref = None, confirmed_by = None, confirmed_at = None, tx_notes = None\<rparr>"

section \<open>Wallet handlers (routers/users.py)\<close>

text \<open>
  \<open>deposit\<close> validates the amount, increments the balance, inserts the transaction and
  then reads the user back. When the user document is missing, the increment matches
  nothing, the transaction is still inserted and the read-back raises.
\<close>

definition deposit :: "state \<Rightarrow> current_user \<Rightarrow> double \<Rightarrow> time \<Rightarrow> outcome" where
  "deposit st cu amount now =
     (if dle amount (Num 0) then (Inl InvalidAmount, st)
      else
        let st1 = st\<lparr>users := update_one (users st) (userId cu)
                        (\<lambda>u. u\<lparr>walletBalance := dadd (walletBalance u) amount\<rparr>)\<rparr>;
            trans_doc = new_transaction (userId cu) amount TDeposit TxCompleted now;
            st2 = st1\<lparr>transactions := insert_one (transactions st1) trans_doc\<rparr>
        in (case users st2 (userId cu) of
              None \<Rightarrow> (Inl ServerError, st2)
            | Some u \<Rightarrow> (Inr (Wallet_tx (walletBalance u) trans_doc), st2)))"

definition withdraw :: "state \<Rightarrow> current_user \<Rightarrow> double \<Rightarrow> time \<Rightarrow> outcome" where
  "withdraw st cu amount now =
     (if dle amount (Num 0) then (Inl InvalidAmount, st)
      else
        (case users st (userId cu) of
           None \<Rightarrow> (Inl ServerError, st)
         | Some u \<Rightarrow>
             if dless (walletBalance u) amount then (Inl InsufficientFunds, st)
             else
               let st1 = st\<lparr>users := update_one (users st) (userId cu)
                               (\<lambda>u. u\<lparr>walletBalance := dadd (walletBalance u) (dneg amount)\<rparr>)\<rparr>;
                   trans_doc = new_transaction (userId cu) amount TWithdraw TxCompleted now;
                   st2 = st1\<lparr>transactions := insert_one (transactions st1) trans_doc\<rparr>
               in (case users st2 (userId cu) of
                     None \<Rightarrow> (Inl ServerError, st2)
                   | Some updated_user \<Rightarrow>
                       (Inr (Wallet_tx (walletBalance updated_user) trans_doc), st2))))"

section \<open>Investment handler (routers/projects.py)\<close>

text \<open>
  \<open>invest_in_project\<close> reads the project, checks its status and the minimum, reads the
  user, checks the balance, and then writes the user, the project and the transaction in
  this order. The new status is computed from the project as read at the start. The
  clock is read twice: for the investor entry and for the transaction.
\<close>

definition invest_in_project ::
  "state \<Rightarrow> current_user \<Rightarrow> oid \<Rightarrow> double \<Rightarrow> time \<Rightarrow> time \<Rightarrow> outcome" where
  "invest_in_project st cu project_id amount now1 now2 =
     (case projects st project_id of
        None \<Rightarrow> (Inl NotFound, st)
      | Some project \<Rightarrow>
          if status project \<noteq> Open then (Inl ProjectNotOpen, st)
          else if dless amount (minInvestment project) then (Inl BelowMinimum, st)
          else
            (case users st (userId cu) of
               None \<Rightarrow> (Inl ServerError, st)
             | Some u \<Rightarrow>
                 if dless (walletBalance u) amount then (Inl InsufficientFunds, st)
                 else
                   let st1 = st\<lparr>users := update_one (users st) (userId cu)
                                   (\<lambda>u. u\<lparr>walletBalance := dadd (walletBalance u) (dneg amount),
                                           totalInvested := dadd (totalInvested u) amount\<rparr>)\<rparr>;
                       new_funded = dadd (fundedAmount project) amount;
                       new_status = (if dle (fundingGoal project) new_funded then Closed else Open);
                       st2 = st1\<lparr>projects := update_one (projects st1) project_id
                                   (\<lambda>p. p\<lparr>fundedAmount := dadd (fundedAmount p) amount,
                                           status := new_status,
                                           investors := investors p @
                                             [\<lparr>inv_userId = userId cu, inv_amount = amount,
                                               inv_date = now1\<rparr>]\<rparr>)\<rparr>;
                       st3 = st2\<lparr>transactions := insert_one (transactions st2)
                                   ((new_transaction (userId cu) amount TInvestment TxCompleted now2)
                                      \<lparr>tx_projectId := Some project_id,
                                       tx_projectTitle := Some (title project)\<rparr>)\<rparr>
                   in (case users st3 (userId cu) of
                         None \<Rightarrow> (Inl ServerError, st3)
                       | Some updated_user \<Rightarrow>
                           (Inr (Invested (walletBalance updated_user)
                                          (totalInvested updated_user)), st3))))"

section \<open>Mobile-money handlers (routers/mobile\_money.py)\<close>

text \<open>
  \<open>process_deposit_to_personal_momo\<close> records the transfer, credits the wallet and
  inserts the platform transaction, already \<open>"completed"\<close>. Its \<open>try\<close> block only
  guards against failures of the store, which are outside this model, so it always
  reports success here.
\<close>

text \<open>\<open>settings.PERSONAL_MOMO_NUMBER\<close> (config.py): the environment's value, or this default.\<close>

definition PERSONAL_MOMO_NUMBER :: string where
  "PERSONAL_MOMO_NUMBER = ''678394294''"

definition process_deposit_to_personal_momo ::
  "state \<Rightarrow> double \<Rightarrow> string \<Rightarrow> oid \<Rightarrow> string \<Rightarrow> time \<Rightarrow> time \<Rightarrow> bool \<times> state" where
  "process_deposit_to_personal_momo st amount user_phone user_id ref t1 t2 =
     (let st1 = st\<lparr>momo_transfers := insert_one (momo_transfers st)
                     \<lparr>from_phone = user_phone, mt_amount = amount, mt_transaction_ref = ref,
                      mt_user_id = user_id, processed_at = t1\<rparr>\<rparr>;
          st2 = st1\<lparr>users := update_one (users st1) user_id
                     (\<lambda>u. u\<lparr>walletBalance := dadd (walletBalance u) amount\<rparr>)\<rparr>;
          platform_tx = (new_transaction user_id amount TMomoDeposit TxCompleted t2)
                          \<lparr>transaction_ref := Some ref,
                           tx_notes := Some (''Funds sent to personal MoMo '' @ PERSONAL_MOMO_NUMBER)\<rparr>;
          st3 = st2\<lparr>transactions := insert_one (transactions st2) platform_tx\<rparr>
      in (True, st3))"

text \<open>
  The reference is \<open>WFD\<close> (deposit) or \<open>WFW\<close> (withdrawal) followed by the clock
  rendered by \<open>strftime('%Y%m%d%H%M%S')\<close>; the rendering is the argument \<open>stamp\<close>.
\<close>

definition mobile_money_deposit ::
  "state \<Rightarrow> current_user \<Rightarrow> string \<Rightarrow> double \<Rightarrow> string \<Rightarrow> time \<Rightarrow> time \<Rightarrow> outcome" where
  "mobile_money_deposit st cu phone_number amount stamp t1 t2 =
     (case users st (userId cu) of
        None \<Rightarrow> (Inl NotFound, st)
      | Some u \<Rightarrow>
          if dle amount (Num 0) then (Inl InvalidAmount, st)
          else if dless amount (Num 100) then (Inl BelowMinimum, st)
          else
            let transaction_ref = ''WFD'' @ stamp;
                (success, st') = process_deposit_to_personal_momo st amount phone_number
                                   (userId cu) transaction_ref t1 t2
            in if \<not> success then (Inl ServerError, st')
               else (Inr (Momo_deposited transaction_ref amount), st'))"

text \<open>
  \<open>mobile_money_withdraw\<close> checks the balance before the sign of the amount, inserts
  the \<open>"pending"\<close> transaction and then debits the wallet.
\<close>

definition mobile_money_withdraw ::
  "state \<Rightarrow> current_user \<Rightarrow> string \<Rightarrow> double \<Rightarrow> string \<Rightarrow> time \<Rightarrow> outcome" where
  "mobile_money_withdraw st cu phone_number amount stamp now =
     (case users st (userId cu) of
        None \<Rightarrow> (Inl NotFound, st)
      | Some u \<Rightarrow>
          if dless (walletBalance u) amount then (Inl InsufficientFunds, st)
          else if dle amount (Num 0) then (Inl InvalidAmount, st)
          else if dless amount (Num 500) then (Inl BelowMinimum, st)
          else
            let transaction_ref = ''WFW'' @ stamp;
                transaction_data = (new_transaction (userId cu) amount TMobileWithdrawal TxPending now)
                                     \<lparr>transaction_ref := Some transaction_ref,
                                      tx_notes := Some (''Withdrawal processed from personal MoMo '' @
                                                        PERSONAL_MOMO_NUMBER)\<rparr>;
                st1 = st\<lparr>transactions := insert_one (transactions st) transaction_data\<rparr>;
                st2 = st1\<lparr>users := update_one (users st1) (userId cu)
                           (\<lambda>u. u\<lparr>walletBalance := dadd (walletBalance u) (dneg amount)\<rparr>)\<rparr>
            in (Inr (Momo_withdrawn transaction_ref amount (dsub (walletBalance u) amount)), st2))"

section \<open>Manual confirmation of a deposit (routers/admin\_enhanced.py)\<close>

text \<open>
  \<open>manual_confirm_deposit\<close> looks the transaction up by reference and type, but its
  update filters on the reference alone: it changes the first transaction that carries
  the reference, whatever its type.
\<close>

definition require_admin :: "current_user \<Rightarrow> bool" where
  "require_admin cu = (cu_role cu = ''admin'')"

definition manual_confirm_deposit :: "state \<Rightarrow> current_user \<Rightarrow> string \<Rightarrow> time \<Rightarrow> outcome" where
  "manual_confirm_deposit st cu ref now =
     (if \<not> require_admin cu then (Inl Forbidden, st)
      else
        (case find_one (\<lambda>t. transaction_ref t = Some ref \<and> tx_type t = TMomoDeposit)
                (transactions st) of
           None \<Rightarrow> (Inl NotFound, st)
         | Some tx \<Rightarrow>
             if tx_status tx = TxCompleted then (Inl AlreadyCompleted, st)
             else
               let st1 = st\<lparr>transactions := update_first (\<lambda>t. transaction_ref t = Some ref)
                               (\<lambda>t. t\<lparr>tx_status := TxCompleted,
                                       confirmed_by := Some (userId cu),
                                       confirmed_at := Some now,
                                       tx_notes := Some ''Manually confirmed by admin''\<rparr>)
                               (transactions st)\<rparr>;
                   st2 = st1\<lparr>users := update_one (users st1) (tx_userId tx)
                               (\<lambda>u. u\<lparr>walletBalance := dadd (walletBalance u) (tx_amount tx)\<rparr>)\<rparr>
               in (Inr (Confirmed ref (tx_amount tx) (tx_userId tx)), st2)))"

section \<open>Registration and administration (routers/auth.py, routers/admin.py)\<close>

text \<open>
  \<open>insert_one\<close> on users and projects draws a fresh \<open>ObjectId\<close>; the id drawn is the
  argument \<open>new_id\<close>, and an id already in the collection is the store's duplicate-key
  error. Password hashing, the verification record and the welcome mail are outside
  the model.
\<close>

definition register :: "state \<Rightarrow> oid \<Rightarrow> string \<Rightarrow> string \<Rightarrow> int \<Rightarrow> outcome" where
  "register st new_id nm mail ag =
     (if ag < 15 then (Inl Underage, st)
      else if \<exists>u \<in> ran (users st). email u = mail then (Inl EmailTaken, st)
      else if new_id \<in> dom (users st) then (Inl ServerError, st)
      else (Inr (Created new_id),
            st\<lparr>users := (users st)(new_id \<mapsto>
                 \<lparr>name = nm, email = mail, age = ag, role = ''member'',
                  walletBalance = Num 0, totalInvested = Num 0, totalReturns = Num 0,
                  user_verified = False, user_blocked = False\<rparr>)\<rparr>))"

definition update_profile :: "state \<Rightarrow> current_user \<Rightarrow> string \<Rightarrow> int \<Rightarrow> outcome" where
  "update_profile st cu nm ag =
     (let st1 = st\<lparr>users := update_one (users st) (userId cu) (\<lambda>u. u\<lparr>name := nm, age := ag\<rparr>)\<rparr>
      in (case users st1 (userId cu) of
            None \<Rightarrow> (Inl ServerError, st1)
          | Some u \<Rightarrow> (Inr (User_doc u), st1)))"

definition verify_user :: "state \<Rightarrow> current_user \<Rightarrow> oid \<Rightarrow> outcome" where
  "verify_user st cu user_id =
     (if \<not> require_admin cu then (Inl Forbidden, st)
      else
        let st1 = st\<lparr>users := update_one (users st) user_id (\<lambda>u. u\<lparr>user_verified := True\<rparr>)\<rparr>
        in (case users st1 user_id of
              None \<Rightarrow> (Inl ServerError, st1)
            | Some u \<Rightarrow> (Inr (User_doc u), st1)))"

definition block_user :: "state \<Rightarrow> current_user \<Rightarrow> oid \<Rightarrow> bool \<Rightarrow> outcome" where
  "block_user st cu user_id b =
     (if \<not> require_admin cu then (Inl Forbidden, st)
      else
        let st1 = st\<lparr>users := update_one (users st) user_id (\<lambda>u. u\<lparr>user_blocked := b\<rparr>)\<rparr>
        in (case users st1 user_id of
              None \<Rightarrow> (Inl ServerError, st1)
            | Some u \<Rightarrow> (Inr (User_doc u), st1)))"

text \<open>
  \<open>create_project\<close> takes title, fundingGoal and minInvestment from the request without
  any range check (\<open>ProjectCreate\<close> declares them \<open>str\<close> and \<open>float\<close>).
\<close>

definition create_project :: "state \<Rightarrow> current_user \<Rightarrow> oid \<Rightarrow> string \<Rightarrow> double \<Rightarrow> double \<Rightarrow> outcome" where
  "create_project st cu new_id ttl goal minInv =
     (if \<not> require_admin cu then (Inl Forbidden, st)
      else if new_id \<in> dom (projects st) then (Inl ServerError, st)
      else (Inr (Created new_id),
            st\<lparr>projects := (projects st)(new_id \<mapsto>
                 \<lparr>title = ttl, fundingGoal = goal, fundedAmount = Num 0, minInvestment = minInv,
                  status = Pending, verified = False, blocked = False, investors = []\<rparr>)\<rparr>))"

definition verify_project :: "state \<Rightarrow> current_user \<Rightarrow> oid \<Rightarrow> outcome" where
  "verify_project st cu project_id =
     (if \<not> require_admin cu then (Inl Forbidden, st)
      else
        let st1 = st\<lparr>projects := update_one (projects st) project_id
                        (\<lambda>p. p\<lparr>verified := True, status := Open\<rparr>)\<rparr>
        in (Inr (Project_doc (projects st1 project_id)), st1))"

definition block_project :: "state \<Rightarrow> current_user \<Rightarrow> oid \<Rightarrow> bool \<Rightarrow> outcome" where
  "block_project st cu project_id b =
     (if \<not> require_admin cu then (Inl Forbidden, st)
      else
        let st1 = st\<lparr>projects := update_one (projects st) project_id (\<lambda>p. p\<lparr>blocked := b\<rparr>)\<rparr>
        in (Inr (Project_doc (projects st1 project_id)), st1))"

definition delete_project :: "state \<Rightarrow> current_user \<Rightarrow> oid \<Rightarrow> outcome" where
  "delete_project st cu project_id =
     (if \<not> require_admin cu then (Inl Forbidden, st)
      else (Inr Message, st\<lparr>projects := (projects st)(project_id := None)\<rparr>))"

text \<open>\<open>review_project\<close> (routers/admin\_enhanced.py) sets the status given in the request.\<close>

definition review_project :: "state \<Rightarrow> current_user \<Rightarrow> oid \<Rightarrow> project_status \<Rightarrow> outcome" where
  "review_project st cu project_id new_status =
     (if \<not> require_admin cu then (Inl Forbidden, st)
      else
        (case projects st project_id of
           None \<Rightarrow> (Inl NotFound, st)
         | Some project \<Rightarrow>
             (Inr Message,
              st\<lparr>projects := update_one (projects st) project_id
                    (\<lambda>p. p\<lparr>status := new_status, verified := (new_status = Approved)\<rparr>)\<rparr>)))"

section \<open>The system as a sequence of requests\<close>

text \<open>
  One constructor per handler that writes a field of the model. A request is served
  whole before the next one; the post-state of a request is kept whether it answered
  with a result or with an error.
\<close>

datatype op =
    Op_register oid string string int
  | Op_update_profile current_user string int
  | Op_deposit current_user double time
  | Op_withdraw current_user double time
  | Op_invest current_user oid double time time
  | Op_momo_deposit current_user string double string time time
  | Op_momo_withdraw current_user string double string time
  | Op_manual_confirm current_user string time
  | Op_verify_user current_user oid
  | Op_block_user current_user oid bool
  | Op_create_project current_user oid string double double
  | Op_verify_project current_user oid
  | Op_block_project current_user oid bool
  | Op_delete_project current_user oid
  | Op_review_project current_user oid project_status

fun handle :: "op \<Rightarrow> state \<Rightarrow> outcome" where
  "handle (Op_register i n e a) st = register st i n e a"
| "handle (Op_update_profile cu n a) st = update_profile st cu n a"
| "handle (Op_deposit cu a t) st = deposit st cu a t"
| "handle (Op_withdraw cu a t) st = withdraw st cu a t"
| "handle (Op_invest cu p a t1 t2) st = invest_in_project st cu p a t1 t2"
| "handle (Op_momo_deposit cu ph a s t1 t2) st = mobile_money_deposit st cu ph a s t1 t2"
| "handle (Op_momo_withdraw cu ph a s t) st = mobile_money_withdraw st cu ph a s t"
| "handle (Op_manual_confirm cu r t) st = manual_confirm_deposit st cu r t"
| "handle (Op_verify_user cu u) st = verify_user st cu u"
| "handle (Op_block_user cu u b) st = block_user st cu u b"
| "handle (Op_create_project cu i ttl g m) st = create_project st cu i ttl g m"
| "handle (Op_verify_project cu p) st = verify_project st cu p"
| "handle (Op_block_project cu p b) st = block_project st cu p b"
| "handle (Op_delete_project cu p) st = delete_project st cu p"
| "handle (Op_review_project cu p s) st = review_project st cu p s"

definition step :: "op \<Rightarrow> state \<Rightarrow> state" where
  "step x st = snd (handle x st)"

fun exec :: "op list \<Rightarrow> state \<Rightarrow> state" where
  "exec [] st = st"
| "exec (x # xs) st = exec xs (step x st)"

definition init_state :: state where
  "init_state = \<lparr>users = Map.empty, projects = Map.empty, transactions = [], momo_transfers = []\<rparr>"

subsection \<open>Invariants\<close>

text \<open>
  The sum of a list of doubles as Python's \<open>sum\<close> computes it: from 0, left to right,
  each addition rounded.
\<close>

definition dsum :: "double list \<Rightarrow> double" where
  "dsum xs = foldl dadd (Num 0) xs"

definition funded_is_sum :: "state \<Rightarrow> bool" where
  "funded_is_sum st =
     (\<forall>pid p. projects st pid = Some p \<longrightarrow>
        fundedAmount p = dsum (map inv_amount (investors p)))"

definition momo_deposits_completed :: "state \<Rightarrow> bool" where
  "momo_deposits_completed st =
     (\<forall>t \<in> set (transactions st). tx_type t = TMomoDeposit \<longrightarrow> tx_status t = TxCompleted)"

text \<open>
  The references the handlers write: \<open>WFD...\<close> on mobile-money deposits, \<open>WFW...\<close> on
  mobile-money withdrawals, none on any other transaction.
\<close>

definition ref_follows_scheme :: "transaction \<Rightarrow> bool" where
  "ref_follows_scheme t =
     (case transaction_ref t of
        None \<Rightarrow> True
      | Some r \<Rightarrow> (tx_type t = TMomoDeposit \<and> take 3 r = ''WFD'') \<or>
                  (tx_type t = TMobileWithdrawal \<and> take 3 r = ''WFW''))"

definition refs_follow_scheme :: "state \<Rightarrow> bool" where
  "refs_follow_scheme st = list_all ref_follows_scheme (transactions st)"

subsection \<open>The document a confirmation writes\<close>

definition confirmed_tx :: "transaction \<Rightarrow> oid \<Rightarrow> time \<Rightarrow> transaction" where
  "confirmed_tx t admin_id now =
     t\<lparr>tx_status := TxCompleted, confirmed_by := Some admin_id, confirmed_at := Some now,
       tx_notes := Some ''Manually confirmed by admin''\<rparr>"

subsection \<open>Example requests and states\<close>

definition admin :: current_user where
  "admin = \<lparr>userId = 0, cu_role = ''admin''\<rparr>"

definition alice :: current_user where
  "alice = \<lparr>userId = 1, cu_role = ''member''\<rparr>"

definition demo_user :: "double \<Rightarrow> user" where
  "demo_user bal =
     \<lparr>name = ''Alice'', email = ''alice@example.org'', age = 30, role = ''member'',
      walletBalance = bal, totalInvested = Num 0, totalReturns = Num 0,
      user_verified = False, user_blocked = False\<rparr>"

definition demo_project :: "double \<Rightarrow> double \<Rightarrow> investor list \<Rightarrow> project" where
  "demo_project goal minInv invs =
     \<lparr>title = ''Farm'', fundingGoal = goal, fundedAmount = dsum (map inv_amount invs),
      minInvestment = minInv, status = Open, verified = True, blocked = False,
      investors = invs\<rparr>"

definition demo_state :: "double \<Rightarrow> project \<Rightarrow> state" where
  "demo_state bal p =
     \<lparr>users = [1 \<mapsto> demo_user bal], projects = [7 \<mapsto> p],
      transactions = [], momo_transfers = []\<rparr>"

text \<open>
  Alice registers and deposits, an administrator creates project 7 and verifies it.
  \<open>setup_state\<close> is the state these four requests lead to from the empty store.
\<close>

definition setup_ops :: "double \<Rightarrow> double \<Rightarrow> double \<Rightarrow> op list" where
  "setup_ops dep goal minInv =
     [Op_register 1 ''Alice'' ''alice@example.org'' 30,
      Op_deposit alice dep 10,
      Op_create_project admin 7 ''Farm'' goal minInv,
      Op_verify_project admin 7]"

definition setup_state :: "double \<Rightarrow> double \<Rightarrow> double \<Rightarrow> state" where
  "setup_state dep goal minInv =
     \<lparr>users = [1 \<mapsto> demo_user (dadd (Num 0) dep)],
      projects = [7 \<mapsto> demo_project goal minInv []],
      transactions = [new_transaction 1 dep TDeposit TxCompleted 10],
      momo_transfers = []\<rparr>"

text \<open>Project 7 with goal 1000, of which an earlier investor has funded 900.\<close>

definition part_funded :: project where
  "part_funded =
     demo_project (Num 1000) (Num 100) [\<lparr>inv_userId = 2, inv_amount = Num 900, inv_date = 3\<rparr>]"

text \<open>
  Project 7 with goal \<open>2 ^ 53 + 4\<close>, of which an earlier investor has funded \<open>2 ^ 53\<close>:
  above \<open>2 ^ 53\<close> the doubles are the even integers.
\<close>

definition big_funded :: project where
  "big_funded =
     demo_project (Num (2 ^ 53 + 4)) (Num 1)
       [\<lparr>inv_userId = 2, inv_amount = Num (2 ^ 53), inv_date = 3\<rparr>]"

text \<open>
  The real value of a finite double, and the doubles that are whole non-negative numbers
  (amounts in FCFA).
\<close>

fun dval :: "double \<Rightarrow> real" where
  "dval (Num x) = x"
| "dval PosInf = 0"
| "dval NegInf = 0"
| "dval NaN = 0"

fun is_whole :: "double \<Rightarrow> bool" where
  "is_whole (Num x) = (0 \<le> x \<and> x \<in> \<int>)"
| "is_whole PosInf = False"
| "is_whole NegInf = False"
| "is_whole NaN = False"

text \<open>The platform transaction a mobile-money deposit writes.\<close>

definition momo_deposit_tx :: "oid \<Rightarrow> double \<Rightarrow> string \<Rightarrow> time \<Rightarrow> transaction" where
  "momo_deposit_tx uid a ref t =
     \<lparr>tx_userId = uid, tx_amount = a, tx_type = TMomoDeposit, tx_status = TxCompleted,
      tx_projectId = None, tx_projectTitle = None, tx_date = t,
      transaction_ref = Some ref, confirmed_by = None, confirmed_at = None,
      tx_notes = Some (''Funds sent to personal MoMo '' @ PERSONAL_MOMO_NUMBER)\<rparr>"





section \<open>Properties\<close>

subsection \<open>Rounding\<close>

lemma round_half_even_int: "round_half_even (of_int n) = n"
  by (simp add: round_half_even_def)

lemma exponent_eq:
  assumes "2 powr of_int e \<le> \<bar>x\<bar>" "\<bar>x\<bar> < 2 powr (of_int e + 1)" "- 1022 \<le> e"
  shows "exponent x = e"
proof -
  have "0 < \<bar>x\<bar>" using assms(1) by (smt (verit) powr_gt_zero)
  then have "\<lfloor>log 2 \<bar>x\<bar>\<rfloor> = e"
    using assms(1,2) by (simp add: floor_log_eq_powr_iff)
  then show ?thesis using assms(3) by (simp add: exponent_def)
qed

lemma rnd_53:
  assumes "2 ^ 53 \<le> \<bar>x\<bar>" "\<bar>x\<bar> < 2 ^ 54"
  shows "rnd x = Num (of_int (round_half_even (x / 2)) * 2)"
proof -
  have e: "exponent x = 53"
    by (rule exponent_eq) (use assms in \<open>simp_all\<close>)
  have nz: "x \<noteq> 0" using assms(1) by auto
  have lo: "x / 2 - 1 \<le> of_int (round_half_even (x / 2))" "of_int (round_half_even (x / 2)) \<le> x / 2 + 1"
    unfolding round_half_even_def Let_def by (auto; linarith)+
  have "\<bar>of_int (round_half_even (x / 2)) * 2\<bar> < (2::real) ^ 1024"
  proof -
    have "\<bar>of_int (round_half_even (x / 2)) * 2\<bar> \<le> \<bar>x\<bar> + 2" using lo by linarith
    also have "\<dots> < 2 ^ 54 + 2" using assms(2) by simp
    also have "\<dots> < (2::real) ^ 1024" by simp
    finally show ?thesis .
  qed
  then show ?thesis using nz by (simp add: rnd_def e Let_def abs_less_iff not_le)
qed

lemma floor_log2_bounds:
  assumes "1 \<le> \<bar>x\<bar>" "\<bar>x\<bar> < 2 ^ 53"
  shows "0 \<le> \<lfloor>log 2 \<bar>x\<bar>\<rfloor>" "\<lfloor>log 2 \<bar>x\<bar>\<rfloor> \<le> 52"
proof -
  have "0 \<le> log 2 \<bar>x\<bar>" using assms(1) by simp
  then show "0 \<le> \<lfloor>log 2 \<bar>x\<bar>\<rfloor>" by simp
  have "\<bar>x\<bar> < 2 powr 53" using assms(2) by simp
  then have "log 2 \<bar>x\<bar> < 53" using assms(1) by (simp add: log_less_iff)
  then show "\<lfloor>log 2 \<bar>x\<bar>\<rfloor> \<le> 52" by linarith
qed

lemma rnd_int:
  assumes "x \<in> \<int>" "\<bar>x\<bar> < 2 ^ 53"
  shows "rnd x = Num x"
proof (cases "x = 0")
  case True
  then show ?thesis by (simp add: rnd_def)
next
  case False
  from assms(1) obtain n where x: "x = of_int n" by (auto elim: Ints_cases)
  with False have "n \<noteq> 0" by simp
  then have "1 \<le> \<bar>n\<bar>" by linarith
  then have "(1::real) \<le> of_int \<bar>n\<bar>" by (metis of_int_1_le_iff)
  then have one: "1 \<le> \<bar>x\<bar>" by (simp add: x)
  define e where "e = \<lfloor>log 2 \<bar>x\<bar>\<rfloor>"
  from floor_log2_bounds[OF one assms(2)] have eb: "0 \<le> e" "e \<le> 52" by (simp_all add: e_def)
  then have ex: "exponent x = e" by (simp add: exponent_def e_def)
  define k where "k = nat (52 - e)"
  have ulp: "2 powr of_int (e - 52) = 1 / (2::real) ^ k"
  proof -
    have "of_int (e - 52) = - real k" using eb by (simp add: k_def)
    then show ?thesis by (simp add: powr_minus powr_realpow inverse_eq_divide)
  qed
  have q: "x / (1 / 2 ^ k) = of_int (n * 2 ^ k)" by (simp add: x)
  have y: "of_int (round_half_even (x / 2 powr of_int (e - 52))) * 2 powr of_int (e - 52) = x"
    unfolding ulp q round_half_even_int by (simp add: x)
  have xb: "\<bar>x\<bar> < (2::real) ^ 1024"
  proof -
    have "(2::real) ^ 53 < 2 ^ 1024" by simp
    with assms(2) show ?thesis by linarith
  qed
  show ?thesis
    unfolding rnd_def Let_def ex y using False xb by (simp add: abs_less_iff not_le)
qed

subsection \<open>Store primitives\<close>

lemma find_one_Some: "find_one P xs = Some x \<Longrightarrow> x \<in> set xs \<and> P x"
  unfolding find_one_def by (induction xs) (auto split: if_splits)




subsection \<open>Manual confirmation\<close>


lemma confirm_completed:
  assumes "require_admin cu"
    and "find_one (\<lambda>t. transaction_ref t = Some ref \<and> tx_type t = TMomoDeposit) (transactions st) = Some tx"
    and "tx_status tx = TxCompleted"
  shows "manual_confirm_deposit st cu ref now = (Inl AlreadyCompleted, st)"
  using assms by (simp add: manual_confirm_deposit_def)


subsection \<open>Running the examples\<close>

lemmas handler_defs =
  register_def update_profile_def deposit_def withdraw_def invest_in_project_def
  mobile_money_deposit_def process_deposit_to_personal_momo_def mobile_money_withdraw_def
  manual_confirm_deposit_def verify_user_def block_user_def create_project_def
  verify_project_def block_project_def delete_project_def review_project_def

lemma exec_append: "exec (xs @ ys) st = exec ys (exec xs st)"
  by (induction xs arbitrary: st) auto

lemma exec_setup:
  "\<not> dle dep (Num 0) \<Longrightarrow>
     exec (setup_ops dep goal minInv) init_state = setup_state dep goal minInv"
  by (simp add: setup_ops_def setup_state_def demo_user_def demo_project_def admin_def alice_def
        step_def register_def deposit_def create_project_def verify_project_def Let_def
        update_one_def insert_one_def init_state_def require_admin_def dsum_def)

lemma setup_then:
  "\<not> dle dep (Num 0) \<Longrightarrow>
     exec (setup_ops dep goal minInv @ xs) init_state = exec xs (setup_state dep goal minInv)"
  by (simp add: exec_append exec_setup)

subsection \<open>Investment\<close>

lemma invest_success:
  assumes "invest_in_project st cu pid amt t1 t2 = (Inr r, st')"
  shows "\<exists>p u. projects st pid = Some p \<and> status p = Open \<and> \<not> dless amt (minInvestment p) \<and>
           users st (userId cu) = Some u \<and> \<not> dless (walletBalance u) amt \<and>
           st' = st\<lparr>users := (users st)(userId cu \<mapsto>
                        u\<lparr>walletBalance := dadd (walletBalance u) (dneg amt),
                          totalInvested := dadd (totalInvested u) amt\<rparr>),
                    projects := (projects st)(pid \<mapsto>
                        p\<lparr>fundedAmount := dadd (fundedAmount p) amt,
                          status := (if dle (fundingGoal p) (dadd (fundedAmount p) amt) then Closed else Open),
                          investors := investors p @
                            [\<lparr>inv_userId = userId cu, inv_amount = amt, inv_date = t1\<rparr>]\<rparr>),
                    transactions := transactions st @
                        [(new_transaction (userId cu) amt TInvestment TxCompleted t2)
                           \<lparr>tx_projectId := Some pid, tx_projectTitle := Some (title p)\<rparr>]\<rparr> \<and>
           r = Invested (dadd (walletBalance u) (dneg amt)) (dadd (totalInvested u) amt)"
  using assms
  unfolding invest_in_project_def
  by (auto simp: Let_def update_one_def insert_one_def split: option.splits if_splits)

lemma invest_error:
  assumes "invest_in_project st cu pid amt t1 t2 = (Inl e, st')"
  shows "st' = st"
  using assms
  unfolding invest_in_project_def
  by (auto simp: Let_def update_one_def insert_one_def split: option.splits if_splits)

lemma invest_accepts:
  assumes "projects st pid = Some p" "status p = Open" "\<not> dless amt (minInvestment p)"
    "users st (userId cu) = Some u" "\<not> dless (walletBalance u) amt"
  shows "\<exists>st'. invest_in_project st cu pid amt t1 t2 =
           (Inr (Invested (dadd (walletBalance u) (dneg amt)) (dadd (totalInvested u) amt)), st')"
  using assms
  unfolding invest_in_project_def
  by (auto simp: Let_def update_one_def insert_one_def split: option.splits if_splits)

subsection \<open>Errors and the state\<close>

lemma deposit_error:
  assumes "deposit st cu a t = (Inl e, st')" and "e \<noteq> ServerError"
  shows "st' = st"
  using assms unfolding deposit_def
  by (simp add: Let_def split: if_splits option.splits)

lemma withdraw_error:
  assumes "withdraw st cu a t = (Inl e, st')"
  shows "st' = st"
  using assms unfolding withdraw_def
  by (simp add: Let_def update_one_def split: if_splits option.splits)

lemma confirm_error:
  assumes "manual_confirm_deposit st cu ref t = (Inl e, st')"
  shows "st' = st"
  using assms unfolding manual_confirm_deposit_def
  by (simp add: Let_def split: if_splits option.splits)

lemma underfunded_invest_fst:
  "fst (invest_in_project (demo_state (Num 100) (demo_project (Num 5000) (Num 500) [])) alice 7 (Num 500) 20 21)
     = Inl InsufficientFunds"
  by (simp add: invest_in_project_def demo_state_def demo_project_def demo_user_def alice_def
        dsum_def)

text \<open>
  C8. When deposit, withdraw, invest\_in\_project or manual\_confirm\_deposit answers with
  InvalidAmount, InsufficientFunds, NotFound, ProjectNotOpen, BelowMinimum or
  AlreadyCompleted, the state after the call is the state before it: users, projects,
  transactions and transfers are all unchanged.
\<close>

theorem error_leaves_state_unchanged:
  assumes "e \<in> {InvalidAmount, InsufficientFunds, NotFound, ProjectNotOpen, BelowMinimum,
                 AlreadyCompleted}"
  shows "(deposit st cu a t = (Inl e, st') \<longrightarrow> st' = st) \<and>
         (withdraw st cu a t = (Inl e, st') \<longrightarrow> st' = st) \<and>
         (invest_in_project st cu pid a t t2 = (Inl e, st') \<longrightarrow> st' = st) \<and>
         (manual_confirm_deposit st cu ref t = (Inl e, st') \<longrightarrow> st' = st)"
proof -
  from assms have "e \<noteq> ServerError" by auto
  show ?thesis
  proof (intro conjI impI)
    assume "deposit st cu a t = (Inl e, st')"
    then show "st' = st" using \<open>e \<noteq> ServerError\<close> by (rule deposit_error)
  next
    assume "withdraw st cu a t = (Inl e, st')"
    then show "st' = st" by (rule withdraw_error)
  next
    assume "invest_in_project st cu pid a t t2 = (Inl e, st')"
    then show "st' = st" by (rule invest_error)
  next
    assume "manual_confirm_deposit st cu ref t = (Inl e, st')"
    then show "st' = st" by (rule confirm_error)
  qed
qed

theorem error_leaves_state_unchanged_witness:
  "fst (invest_in_project (demo_state (Num 100) (demo_project (Num 5000) (Num 500) [])) alice 7 (Num 500) 20 21)
     = Inl InsufficientFunds \<and>
   snd (invest_in_project (demo_state (Num 100) (demo_project (Num 5000) (Num 500) [])) alice 7 (Num 500) 20 21)
     = demo_state (Num 100) (demo_project (Num 5000) (Num 500) []) \<and>
   map_option walletBalance (users (demo_state (Num 100) (demo_project (Num 5000) (Num 500) [])) 1) = Some (Num 100)"
proof -
  have "InsufficientFunds \<in> {InvalidAmount, InsufficientFunds, NotFound, ProjectNotOpen,
          BelowMinimum, AlreadyCompleted}" by simp
  moreover have run: "invest_in_project (demo_state (Num 100) (demo_project (Num 5000) (Num 500) [])) alice 7 (Num 500) 20 21 =
     (Inl InsufficientFunds,
      snd (invest_in_project (demo_state (Num 100) (demo_project (Num 5000) (Num 500) [])) alice 7 (Num 500) 20 21))"
    using underfunded_invest_fst by (metis prod.collapse)
  ultimately have "snd (invest_in_project (demo_state (Num 100) (demo_project (Num 5000) (Num 500) [])) alice 7 (Num 500) 20 21)
     = demo_state (Num 100) (demo_project (Num 5000) (Num 500) [])"
    using error_leaves_state_unchanged by blast
  moreover note underfunded_invest_fst
  moreover have "map_option walletBalance (users (demo_state (Num 100) (demo_project (Num 5000) (Num 500) [])) 1) = Some (Num 100)"
    by (simp add: demo_state_def demo_user_def)
  ultimately show ?thesis by blast
qed

subsection \<open>Where the handler departs from the specification\<close>

text \<open>
  C1 (not met by the code). \<open>invest_in_project\<close> never reads the project's
  \<open>blocked\<close> flag. After Alice has registered and deposited 1000, and an administrator
  has created, verified and then blocked project 7, the project is open and blocked;
  Alice's investment of 1000 succeeds and the blocked project's fundedAmount becomes 1000.
\<close>

theorem invest_in_blocked_project_succeeds:
  "map_option (\<lambda>p. (status p, blocked p, fundedAmount p))
     (projects (exec (setup_ops (Num 1000) (Num 5000) (Num 500) @ [Op_block_project admin 7 True]) init_state) 7)
     = Some (Open, True, Num 0) \<and>
   fst (invest_in_project (exec (setup_ops (Num 1000) (Num 5000) (Num 500) @ [Op_block_project admin 7 True]) init_state)
          alice 7 (Num 1000) 20 21) = Inr (Invested (Num 0) (Num 1000)) \<and>
   map_option (\<lambda>p. (status p, blocked p, fundedAmount p))
     (projects (snd (invest_in_project
                  (exec (setup_ops (Num 1000) (Num 5000) (Num 500) @ [Op_block_project admin 7 True]) init_state)
                  alice 7 (Num 1000) 20 21)) 7)
     = Some (Open, True, Num 1000)"
  by (simp add: setup_then step_def block_project_def invest_in_project_def setup_state_def
        demo_project_def demo_user_def alice_def admin_def require_admin_def Let_def
        update_one_def insert_one_def dsum_def rnd_int)

text \<open>
  C5 (not met by the code). \<open>invest_in_project\<close> does not check the sign of the amount
  (\<open>deposit\<close> and \<open>withdraw\<close> do). For a project created with minInvestment - 100, an
  investment of - 50 passes the minimum and the balance check, is accepted, raises the
  wallet from 1000 to 1050 and lowers the project's fundedAmount from 0 to - 50.
\<close>

theorem invest_negative_amount_lowers_funded:
  "map_option (\<lambda>p. (minInvestment p, fundedAmount p))
     (projects (exec (setup_ops (Num 1000) (Num 5000) (Num (- 100))) init_state) 7) = Some (Num (- 100), Num 0) \<and>
   fst (invest_in_project (exec (setup_ops (Num 1000) (Num 5000) (Num (- 100))) init_state) alice 7 (Num (- 50)) 20 21)
     = Inr (Invested (Num 1050) (Num (- 50))) \<and>
   map_option fundedAmount
     (projects (snd (invest_in_project (exec (setup_ops (Num 1000) (Num 5000) (Num (- 100))) init_state)
                  alice 7 (Num (- 50)) 20 21)) 7) = Some (Num (- 50))"
  by (simp add: exec_setup invest_in_project_def setup_state_def
        demo_project_def demo_user_def alice_def Let_def update_one_def insert_one_def
        dsum_def rnd_int)

subsection \<open>What an investment changes\<close>

lemmas eval_simps = rnd_int rnd_53 round_half_even_def dsum_def

lemma demo_invest_fst:
  "fst (invest_in_project (demo_state (Num 1000) (demo_project (Num 5000) (Num 500) []))
          alice 7 (Num 1000) 20 21) = Inr (Invested (Num 0) (Num 1000))"
  by (simp add: invest_in_project_def demo_state_def demo_project_def demo_user_def alice_def
        Let_def update_one_def insert_one_def eval_simps)

text \<open>
  C2 (as amended). A successful investment of \<open>amt\<close> by the caller in project \<open>pid\<close>
  changes the caller's walletBalance to the double-precision sum of the old balance and
  \<open>- amt\<close>, the caller's totalInvested and the project's fundedAmount to the
  double-precision sum of their old value and \<open>amt\<close>, appends the one entry (caller,
  \<open>amt\<close>, time) to the project's investors, and appends one transaction of type
  investment and status completed that carries the project's id and the title read at the
  start; the earlier transactions, the other users and the other projects are as before.
\<close>

theorem invest_conservation:
  assumes "invest_in_project st cu pid amt t1 t2 = (Inr r, st')"
  shows "\<exists>u p u' p'.
           users st (userId cu) = Some u \<and> projects st pid = Some p \<and>
           users st' (userId cu) = Some u' \<and> projects st' pid = Some p' \<and>
           walletBalance u' = dadd (walletBalance u) (dneg amt) \<and>
           totalInvested u' = dadd (totalInvested u) amt \<and>
           fundedAmount p' = dadd (fundedAmount p) amt \<and>
           investors p' = investors p @ [\<lparr>inv_userId = userId cu, inv_amount = amt, inv_date = t1\<rparr>] \<and>
           transactions st' = transactions st @
             [\<lparr>tx_userId = userId cu, tx_amount = amt, tx_type = TInvestment,
               tx_status = TxCompleted, tx_projectId = Some pid,
               tx_projectTitle = Some (title p), tx_date = t2, transaction_ref = None,
               confirmed_by = None, confirmed_at = None, tx_notes = None\<rparr>] \<and>
           (\<forall>j. j \<noteq> userId cu \<longrightarrow> users st' j = users st j) \<and>
           (\<forall>j. j \<noteq> pid \<longrightarrow> projects st' j = projects st j) \<and>
           momo_transfers st' = momo_transfers st \<and>
           r = Invested (walletBalance u') (totalInvested u')"
proof -
  from invest_success[OF assms] obtain p u where
    p: "projects st pid = Some p" and u: "users st (userId cu) = Some u"
    and st': "st' = st\<lparr>users := (users st)(userId cu \<mapsto>
                        u\<lparr>walletBalance := dadd (walletBalance u) (dneg amt),
                          totalInvested := dadd (totalInvested u) amt\<rparr>),
                    projects := (projects st)(pid \<mapsto>
                        p\<lparr>fundedAmount := dadd (fundedAmount p) amt,
                          status := (if dle (fundingGoal p) (dadd (fundedAmount p) amt) then Closed else Open),
                          investors := investors p @
                            [\<lparr>inv_userId = userId cu, inv_amount = amt, inv_date = t1\<rparr>]\<rparr>),
                    transactions := transactions st @
                        [(new_transaction (userId cu) amt TInvestment TxCompleted t2)
                           \<lparr>tx_projectId := Some pid, tx_projectTitle := Some (title p)\<rparr>]\<rparr>"
    and r: "r = Invested (dadd (walletBalance u) (dneg amt)) (dadd (totalInvested u) amt)"
    by blast
  show ?thesis
    using p u r by (simp add: st' new_transaction_def)
qed

theorem invest_conservation_witness:
  "fst (invest_in_project (demo_state (Num 1000) (demo_project (Num 5000) (Num 500) []))
          alice 7 (Num 1000) 20 21) = Inr (Invested (Num 0) (Num 1000)) \<and>
   map_option walletBalance
     (users (snd (invest_in_project (demo_state (Num 1000) (demo_project (Num 5000) (Num 500) []))
                    alice 7 (Num 1000) 20 21)) 1) = Some (Num 0) \<and>
   map_option totalInvested
     (users (snd (invest_in_project (demo_state (Num 1000) (demo_project (Num 5000) (Num 500) []))
                    alice 7 (Num 1000) 20 21)) 1) = Some (Num 1000) \<and>
   map_option fundedAmount
     (projects (snd (invest_in_project (demo_state (Num 1000) (demo_project (Num 5000) (Num 500) []))
                       alice 7 (Num 1000) 20 21)) 7) = Some (Num 1000) \<and>
   map (\<lambda>t. (tx_type t, tx_status t, tx_amount t, tx_projectId t, tx_projectTitle t))
     (transactions (snd (invest_in_project
                           (demo_state (Num 1000) (demo_project (Num 5000) (Num 500) []))
                           alice 7 (Num 1000) 20 21)))
     = [(TInvestment, TxCompleted, Num 1000, Some 7, Some ''Farm'')]"
proof -
  let ?S = "demo_state (Num 1000) (demo_project (Num 5000) (Num 500) [])"
  let ?S' = "snd (invest_in_project ?S alice 7 (Num 1000) 20 21)"
  have run: "invest_in_project ?S alice 7 (Num 1000) 20 21 = (Inr (Invested (Num 0) (Num 1000)), ?S')"
    using demo_invest_fst by (metis prod.collapse)
  from invest_conservation[OF run] obtain u p u' p' where
    u: "users ?S (userId alice) = Some u" and p: "projects ?S 7 = Some p"
    and u': "users ?S' (userId alice) = Some u'" and p': "projects ?S' 7 = Some p'"
    and w: "walletBalance u' = dadd (walletBalance u) (dneg (Num 1000))"
    and ti: "totalInvested u' = dadd (totalInvested u) (Num 1000)"
    and fa: "fundedAmount p' = dadd (fundedAmount p) (Num 1000)"
    and tx: "transactions ?S' = transactions ?S @
             [\<lparr>tx_userId = userId alice, tx_amount = Num 1000, tx_type = TInvestment,
               tx_status = TxCompleted, tx_projectId = Some 7,
               tx_projectTitle = Some (title p), tx_date = 21, transaction_ref = None,
               confirmed_by = None, confirmed_at = None, tx_notes = None\<rparr>]"
    by blast
  have a: "userId alice = 1" by (simp add: alice_def)
  from u have ud: "u = demo_user (Num 1000)" by (simp add: demo_state_def a)
  from p have pd: "p = demo_project (Num 5000) (Num 500) []" by (simp add: demo_state_def)
  have "map_option walletBalance (users ?S' 1) = Some (Num 0)"
    using u' w by (simp add: a ud demo_user_def eval_simps)
  moreover have "map_option totalInvested (users ?S' 1) = Some (Num 1000)"
    using u' ti by (simp add: a ud demo_user_def eval_simps)
  moreover have "map_option fundedAmount (projects ?S' 7) = Some (Num 1000)"
    using p' fa by (simp add: pd demo_project_def eval_simps)
  moreover have "map (\<lambda>t. (tx_type t, tx_status t, tx_amount t, tx_projectId t, tx_projectTitle t))
     (transactions ?S') = [(TInvestment, TxCompleted, Num 1000, Some 7, Some ''Farm'')]"
    unfolding tx by (simp add: pd demo_project_def demo_state_def)
  ultimately show ?thesis using demo_invest_fst by blast
qed

text \<open>
  C2 as stated fails by rounding. After Alice has registered and deposited \<open>10 ^ 16\<close>
  and project 7 (minimum 1) is open, her investment of 1 succeeds, the project's
  fundedAmount goes from 0 to 1, and her walletBalance is still \<open>10 ^ 16\<close>: the exact
  difference \<open>10 ^ 16 - 1\<close> is not a double and rounds back to \<open>10 ^ 16\<close>.
\<close>

theorem invest_conservation_counterexample:
  "map_option walletBalance
     (users (exec (setup_ops (Num (10 ^ 16)) (Num 5000) (Num 1)) init_state) 1)
     = Some (Num (10 ^ 16)) \<and>
   fst (invest_in_project (exec (setup_ops (Num (10 ^ 16)) (Num 5000) (Num 1)) init_state)
          alice 7 (Num 1) 20 21) = Inr (Invested (Num (10 ^ 16)) (Num 1)) \<and>
   map_option walletBalance
     (users (snd (invest_in_project (exec (setup_ops (Num (10 ^ 16)) (Num 5000) (Num 1)) init_state)
                    alice 7 (Num 1) 20 21)) 1) = Some (Num (10 ^ 16)) \<and>
   map_option fundedAmount
     (projects (snd (invest_in_project (exec (setup_ops (Num (10 ^ 16)) (Num 5000) (Num 1)) init_state)
                       alice 7 (Num 1) 20 21)) 7) = Some (Num 1) \<and>
   (10 ^ 16 :: real) \<noteq> 10 ^ 16 - 1"
  by (simp add: exec_setup invest_in_project_def setup_state_def demo_project_def demo_user_def
        alice_def Let_def update_one_def insert_one_def eval_simps)

subsection \<open>Status after an investment\<close>

lemma status_runs:
  "fst (invest_in_project (demo_state (Num 1000) (demo_project (Num 5000) (Num 500) []))
          alice 7 (Num 1000) 20 21) = Inr (Invested (Num 0) (Num 1000))"
  "fst (invest_in_project (demo_state (Num 500) part_funded) alice 7 (Num 100) 20 21)
     = Inr (Invested (Num 400) (Num 100))"
  "fst (invest_in_project (demo_state (Num 500) part_funded) alice 7 (Num 500) 20 21)
     = Inr (Invested (Num 0) (Num 500))"
  "fst (invest_in_project (demo_state (Num 500) big_funded) alice 7 (Num 3) 20 21)
     = Inr (Invested (Num 497) (Num 3))"
  by (simp_all add: invest_in_project_def demo_state_def part_funded_def big_funded_def
        demo_project_def demo_user_def alice_def Let_def update_one_def insert_one_def eval_simps)

lemma status_before:
  "projects (demo_state b p) 7 = Some p"
  "fundedAmount (demo_project (Num 5000) (Num 500) []) = Num 0"
  "fundingGoal (demo_project (Num 5000) (Num 500) []) = Num 5000"
  "fundedAmount part_funded = Num 900" "fundingGoal part_funded = Num 1000"
  "fundedAmount big_funded = Num (2 ^ 53)" "fundingGoal big_funded = Num (2 ^ 53 + 4)"
  by (simp_all add: demo_state_def part_funded_def big_funded_def demo_project_def eval_simps)

text \<open>
  C6. After a successful investment the project is closed when its new fundedAmount is
  at least the fundingGoal and open otherwise. The amount is taken in full: the investor
  entry carries the whole amount and the new fundedAmount is the (double-precision) sum
  of the old one and the whole amount, with no cap at the goal, so it may pass the goal
  (900 + 500 = 1400 against a goal of 1000 in the example). The comparison is made on
  the value that is stored: with fundedAmount \<open>2 ^ 53\<close>, goal \<open>2 ^ 53 + 4\<close> and amount
  3 the stored sum is \<open>2 ^ 53 + 4\<close> and the project is closed.
\<close>

theorem invest_status:
  assumes "invest_in_project st cu pid amt t1 t2 = (Inr r, st')"
  shows "\<exists>p p'. projects st pid = Some p \<and> projects st' pid = Some p' \<and>
           fundedAmount p' = dadd (fundedAmount p) amt \<and>
           fundingGoal p' = fundingGoal p \<and>
           investors p' = investors p @ [\<lparr>inv_userId = userId cu, inv_amount = amt, inv_date = t1\<rparr>] \<and>
           status p' = (if dle (fundingGoal p') (fundedAmount p') then Closed else Open)"
proof -
  from invest_success[OF assms] obtain p u where
    p: "projects st pid = Some p"
    and st': "st' = st\<lparr>users := (users st)(userId cu \<mapsto>
                        u\<lparr>walletBalance := dadd (walletBalance u) (dneg amt),
                          totalInvested := dadd (totalInvested u) amt\<rparr>),
                    projects := (projects st)(pid \<mapsto>
                        p\<lparr>fundedAmount := dadd (fundedAmount p) amt,
                          status := (if dle (fundingGoal p) (dadd (fundedAmount p) amt) then Closed else Open),
                          investors := investors p @
                            [\<lparr>inv_userId = userId cu, inv_amount = amt, inv_date = t1\<rparr>]\<rparr>),
                    transactions := transactions st @
                        [(new_transaction (userId cu) amt TInvestment TxCompleted t2)
                           \<lparr>tx_projectId := Some pid, tx_projectTitle := Some (title p)\<rparr>]\<rparr>"
    by blast
  show ?thesis using p by (simp add: st')
qed

theorem invest_status_witness:
  "map_option (\<lambda>p. (fundedAmount p, status p))
     (projects (snd (invest_in_project (demo_state (Num 1000) (demo_project (Num 5000) (Num 500) []))
                       alice 7 (Num 1000) 20 21)) 7) = Some (Num 1000, Open) \<and>
   map_option (\<lambda>p. (fundedAmount p, status p))
     (projects (snd (invest_in_project (demo_state (Num 500) part_funded) alice 7 (Num 100) 20 21)) 7)
     = Some (Num 1000, Closed) \<and>
   map_option (\<lambda>p. (fundedAmount p, status p))
     (projects (snd (invest_in_project (demo_state (Num 500) part_funded) alice 7 (Num 500) 20 21)) 7)
     = Some (Num 1400, Closed) \<and>
   map_option (\<lambda>p. (fundedAmount p, status p))
     (projects (snd (invest_in_project (demo_state (Num 500) big_funded) alice 7 (Num 3) 20 21)) 7)
     = Some (Num (2 ^ 53 + 4), Closed)"
proof -
  have run: "fst (invest_in_project S alice 7 a 20 21) = Inr r \<Longrightarrow>
      invest_in_project S alice 7 a 20 21 = (Inr r, snd (invest_in_project S alice 7 a 20 21))"
    for S a r by (metis prod.collapse)
  note T = invest_status[OF run]
  from T[OF status_runs(1)] have
    "map_option (\<lambda>p. (fundedAmount p, status p))
     (projects (snd (invest_in_project (demo_state (Num 1000) (demo_project (Num 5000) (Num 500) []))
                       alice 7 (Num 1000) 20 21)) 7) = Some (Num 1000, Open)"
    by (auto simp: status_before eval_simps)
  moreover from T[OF status_runs(2)] have
    "map_option (\<lambda>p. (fundedAmount p, status p))
     (projects (snd (invest_in_project (demo_state (Num 500) part_funded) alice 7 (Num 100) 20 21)) 7)
     = Some (Num 1000, Closed)"
    by (auto simp: status_before eval_simps)
  moreover from T[OF status_runs(3)] have
    "map_option (\<lambda>p. (fundedAmount p, status p))
     (projects (snd (invest_in_project (demo_state (Num 500) part_funded) alice 7 (Num 500) 20 21)) 7)
     = Some (Num 1400, Closed)"
    by (auto simp: status_before eval_simps)
  moreover from T[OF status_runs(4)] have
    "map_option (\<lambda>p. (fundedAmount p, status p))
     (projects (snd (invest_in_project (demo_state (Num 500) big_funded) alice 7 (Num 3) 20 21)) 7)
     = Some (Num (2 ^ 53 + 4), Closed)"
    by (auto simp: status_before eval_simps)
  ultimately show ?thesis by blast
qed

subsection \<open>Withdrawal\<close>

text \<open>
  C9 (as amended). For a caller whose user document exists: a withdrawal of an amount
  \<open>a\<close> with \<open>a <= 0\<close> fails with InvalidAmount; otherwise it fails with
  InsufficientFunds exactly when \<open>walletBalance < a\<close>, and then nothing changes;
  otherwise the walletBalance becomes the double-precision sum of the old balance and
  \<open>- a\<close>, one completed withdraw transaction is appended, and the new balance is
  returned. The comparisons are those of doubles.
\<close>

theorem withdraw_contract:
  assumes "users st (userId cu) = Some u"
  shows "(dle a (Num 0) \<longrightarrow> withdraw st cu a now = (Inl InvalidAmount, st)) \<and>
         (\<not> dle a (Num 0) \<longrightarrow>
            (fst (withdraw st cu a now) = Inl InsufficientFunds \<longleftrightarrow> dless (walletBalance u) a)) \<and>
         (\<not> dle a (Num 0) \<and> dless (walletBalance u) a \<longrightarrow>
            withdraw st cu a now = (Inl InsufficientFunds, st)) \<and>
         (\<not> dle a (Num 0) \<and> \<not> dless (walletBalance u) a \<longrightarrow>
            (\<exists>tx. withdraw st cu a now =
                    (Inr (Wallet_tx (dadd (walletBalance u) (dneg a)) tx),
                     st\<lparr>users := (users st)(userId cu \<mapsto>
                                    u\<lparr>walletBalance := dadd (walletBalance u) (dneg a)\<rparr>),
                        transactions := transactions st @ [tx]\<rparr>)
                \<and> tx_type tx = TWithdraw \<and> tx_status tx = TxCompleted
                \<and> tx_userId tx = userId cu \<and> tx_amount tx = a \<and> tx_date tx = now))"
  using assms unfolding withdraw_def
  by (simp add: Let_def update_one_def insert_one_def new_transaction_def)

theorem withdraw_contract_witness:
  "users (demo_state (Num 200) (demo_project (Num 5000) (Num 500) [])) (userId alice)
     = Some (demo_user (Num 200)) \<and>
   withdraw (demo_state (Num 200) (demo_project (Num 5000) (Num 500) [])) alice (Num 300) 9
     = (Inl InsufficientFunds, demo_state (Num 200) (demo_project (Num 5000) (Num 500) [])) \<and>
   withdraw (demo_state (Num 200) (demo_project (Num 5000) (Num 500) [])) alice (Num (- 5)) 9
     = (Inl InvalidAmount, demo_state (Num 200) (demo_project (Num 5000) (Num 500) [])) \<and>
   (\<exists>tx st'. withdraw (demo_state (Num 200) (demo_project (Num 5000) (Num 500) [])) alice (Num 50) 9
              = (Inr (Wallet_tx (Num 150) tx), st')
            \<and> map_option walletBalance (users st' 1) = Some (Num 150)
            \<and> transactions st' = [tx] \<and> tx_type tx = TWithdraw \<and> tx_status tx = TxCompleted)"
proof -
  let ?S = "demo_state (Num 200) (demo_project (Num 5000) (Num 500) [])"
  have u: "users ?S (userId alice) = Some (demo_user (Num 200))"
    by (simp add: demo_state_def alice_def)
  have b: "walletBalance (demo_user (Num 200)) = Num 200" by (simp add: demo_user_def)
  have t: "transactions ?S = []" by (simp add: demo_state_def)
  have a: "userId alice = 1" by (simp add: alice_def)
  have d: "dadd (Num 200) (dneg (Num 50)) = Num 150" by (simp add: eval_simps)
  from withdraw_contract[OF u, of "Num 300" 9] b
  have 1: "withdraw ?S alice (Num 300) 9 = (Inl InsufficientFunds, ?S)" by simp
  from withdraw_contract[OF u, of "Num (- 5)" 9]
  have 2: "withdraw ?S alice (Num (- 5)) 9 = (Inl InvalidAmount, ?S)" by simp
  from withdraw_contract[OF u, of "Num 50" 9] b d obtain tx where
    3: "withdraw ?S alice (Num 50) 9 =
          (Inr (Wallet_tx (Num 150) tx),
           ?S\<lparr>users := (users ?S)(userId alice \<mapsto> (demo_user (Num 200))\<lparr>walletBalance := Num 150\<rparr>),
              transactions := transactions ?S @ [tx]\<rparr>)"
    and 4: "tx_type tx = TWithdraw" "tx_status tx = TxCompleted"
    by auto
  have "\<exists>tx st'. withdraw ?S alice (Num 50) 9 = (Inr (Wallet_tx (Num 150) tx), st')
            \<and> map_option walletBalance (users st' 1) = Some (Num 150)
            \<and> transactions st' = [tx] \<and> tx_type tx = TWithdraw \<and> tx_status tx = TxCompleted"
    using 3 4 by (intro exI[of _ tx] exI[of _ "?S\<lparr>users := (users ?S)(userId alice \<mapsto> (demo_user (Num 200))\<lparr>walletBalance := Num 150\<rparr>),
              transactions := transactions ?S @ [tx]\<rparr>"]) (simp add: a t)
  with u 1 2 show ?thesis by blast
qed

text \<open>
  C9 as stated fails by rounding. With a walletBalance of \<open>10 ^ 16\<close>, a withdrawal of 1
  succeeds, returns \<open>10 ^ 16\<close> and leaves the walletBalance at \<open>10 ^ 16\<close>: the balance
  has not gone down by 1.
\<close>

theorem withdraw_contract_counterexample:
  "map_option walletBalance
     (users (exec (setup_ops (Num (10 ^ 16)) (Num 5000) (Num 1)) init_state) 1)
     = Some (Num (10 ^ 16)) \<and>
   (\<exists>tx. fst (withdraw (exec (setup_ops (Num (10 ^ 16)) (Num 5000) (Num 1)) init_state)
                 alice (Num 1) 30) = Inr (Wallet_tx (Num (10 ^ 16)) tx)) \<and>
   map_option walletBalance
     (users (snd (withdraw (exec (setup_ops (Num (10 ^ 16)) (Num 5000) (Num 1)) init_state)
                    alice (Num 1) 30)) 1) = Some (Num (10 ^ 16)) \<and>
   (10 ^ 16 :: real) \<noteq> 10 ^ 16 - 1"
  by (simp add: exec_setup withdraw_def setup_state_def demo_project_def demo_user_def
        alice_def Let_def update_one_def insert_one_def eval_simps)

subsection \<open>Invariants of the request sequence\<close>

lemma confirm_noop:
  assumes "momo_deposits_completed st"
  shows "snd (manual_confirm_deposit st cu ref now) = st"
proof (cases "find_one (\<lambda>t. transaction_ref t = Some ref \<and> tx_type t = TMomoDeposit) (transactions st)")
  case None
  then show ?thesis by (simp add: manual_confirm_deposit_def)
next
  case (Some tx)
  from find_one_Some[OF Some] assms have "tx_status tx = TxCompleted"
    by (auto simp: momo_deposits_completed_def)
  with Some show ?thesis by (simp add: manual_confirm_deposit_def)
qed

lemma step_momo:
  assumes "momo_deposits_completed st"
  shows "momo_deposits_completed (step x st)"
proof (cases x)
  case (Op_manual_confirm cu r t)
  then show ?thesis using confirm_noop[OF assms] assms by (simp add: step_def)
qed (use assms in \<open>auto simp: step_def handler_defs momo_deposits_completed_def Let_def
       insert_one_def new_transaction_def split: option.splits if_splits\<close>)

lemma dsum_snoc: "dsum (xs @ [a]) = dadd (dsum xs) a"
  by (simp add: dsum_def)

lemma dsum_nil: "dsum [] = Num 0"
  by (simp add: dsum_def)

lemma step_funded:
  assumes "funded_is_sum st"
  shows "funded_is_sum (step x st)"
  using assms
  by (cases x) (auto simp: step_def handler_defs funded_is_sum_def Let_def dsum_snoc dsum_nil
       update_one_def split: option.splits if_splits)

lemma exec_momo: "momo_deposits_completed st \<Longrightarrow> momo_deposits_completed (exec xs st)"
  by (induction xs arbitrary: st) (simp_all add: step_momo)

lemma exec_funded: "funded_is_sum st \<Longrightarrow> funded_is_sum (exec xs st)"
  by (induction xs arbitrary: st) (simp_all add: step_funded)

lemma init_momo: "momo_deposits_completed init_state"
  by (simp add: momo_deposits_completed_def init_state_def)

lemma init_funded: "funded_is_sum init_state"
  by (simp add: funded_is_sum_def init_state_def dsum_def)

subsection \<open>Funded amount and investors\<close>

lemma is_whole_cases: "is_whole a \<Longrightarrow> \<exists>x. a = Num x \<and> 0 \<le> x \<and> x \<in> \<int>"
  by (cases a) auto

lemma dsum_whole:
  "list_all is_whole xs \<Longrightarrow> sum_list (map dval xs) < 2 ^ 53 \<Longrightarrow>
     dsum xs = Num (sum_list (map dval xs)) \<and> 0 \<le> sum_list (map dval xs) \<and>
     sum_list (map dval xs) \<in> \<int>"
proof (induction xs rule: rev_induct)
  case Nil
  then show ?case by (simp add: dsum_def)
next
  case (snoc a xs)
  from snoc.prems(1) have wa: "is_whole a" and wxs: "list_all is_whole xs" by simp_all
  from is_whole_cases[OF wa] obtain y where a: "a = Num y" and y: "0 \<le> y" "y \<in> \<int>" by blast
  from snoc.prems(2) have tot: "sum_list (map dval xs) + y < 2 ^ 53" by (simp add: a)
  with y have "sum_list (map dval xs) < 2 ^ 53" by linarith
  from snoc.IH[OF wxs this] have IH: "dsum xs = Num (sum_list (map dval xs))"
    "0 \<le> sum_list (map dval xs)" "sum_list (map dval xs) \<in> \<int>" by simp_all
  have int: "sum_list (map dval xs) + y \<in> \<int>" using IH(3) y(2) by (rule Ints_add)
  have "\<bar>sum_list (map dval xs) + y\<bar> < 2 ^ 53" using tot IH(2) y(1) by simp
  from rnd_int[OF int this] show ?case
    using IH(2) y(1) int by (simp add: dsum_snoc IH(1) a)
qed

lemma setup_invest:
  "map_option (\<lambda>p. (fundedAmount p, map inv_amount (investors p), status p))
     (projects (exec (setup_ops (Num 1000) (Num 5000) (Num 100) @
                      [Op_invest alice 7 (Num 600) 20 21, Op_invest alice 7 (Num 400) 22 23])
                  init_state) 7)
     = Some (Num 1000, [Num 600, Num 400], Open)"
  by (simp add: setup_then step_def invest_in_project_def setup_state_def demo_project_def
        demo_user_def alice_def Let_def update_one_def insert_one_def eval_simps)

text \<open>
  C4 (as amended). Starting from the empty store, after any sequence of requests the
  stored fundedAmount of every project is the running double-precision sum of the amounts
  of its investors entries, added from 0 in the order of the list, each addition rounded.
  When the amounts are whole non-negative numbers with a total below \<open>2 ^ 53\<close>, no
  addition rounds and the fundedAmount is their exact sum.
\<close>

theorem funded_amount_is_sum_of_investors:
  "funded_is_sum (exec ops init_state) \<and>
   (\<forall>pid p. projects (exec ops init_state) pid = Some p \<and>
       list_all is_whole (map inv_amount (investors p)) \<and>
       sum_list (map dval (map inv_amount (investors p))) < 2 ^ 53 \<longrightarrow>
       fundedAmount p = Num (sum_list (map dval (map inv_amount (investors p)))))"
proof -
  have inv: "funded_is_sum (exec ops init_state)"
    by (rule exec_funded[OF init_funded])
  have "fundedAmount p = Num (sum_list (map dval (map inv_amount (investors p))))"
    if h: "projects (exec ops init_state) pid = Some p \<and>
       list_all is_whole (map inv_amount (investors p)) \<and>
       sum_list (map dval (map inv_amount (investors p))) < 2 ^ 53" for pid p
  proof -
    from inv h have "fundedAmount p = dsum (map inv_amount (investors p))"
      unfolding funded_is_sum_def by blast
    moreover from h have "dsum (map inv_amount (investors p))
        = Num (sum_list (map dval (map inv_amount (investors p))))"
      using dsum_whole by blast
    ultimately show ?thesis by simp
  qed
  with inv show ?thesis by blast
qed

theorem funded_amount_is_sum_of_investors_witness:
  "funded_is_sum (exec (setup_ops (Num 1000) (Num 5000) (Num 100) @
                      [Op_invest alice 7 (Num 600) 20 21, Op_invest alice 7 (Num 400) 22 23])
                  init_state) \<and>
   map_option (\<lambda>p. (fundedAmount p, map inv_amount (investors p), status p))
     (projects (exec (setup_ops (Num 1000) (Num 5000) (Num 100) @
                      [Op_invest alice 7 (Num 600) 20 21, Op_invest alice 7 (Num 400) 22 23])
                  init_state) 7)
     = Some (Num 1000, [Num 600, Num 400], Open) \<and>
   list_all is_whole [Num 600, Num 400] \<and>
   sum_list (map dval [Num 600, Num 400]) = 1000"
proof -
  have "funded_is_sum (exec (setup_ops (Num 1000) (Num 5000) (Num 100) @
                      [Op_invest alice 7 (Num 600) 20 21, Op_invest alice 7 (Num 400) 22 23])
                  init_state)"
    using funded_amount_is_sum_of_investors by blast
  moreover have "list_all is_whole [Num 600, Num 400]" by simp
  moreover have "sum_list (map dval [Num 600, Num 400]) = 1000" by simp
  ultimately show ?thesis using setup_invest by blast
qed

text \<open>
  C4 as stated fails by rounding. After investments of \<open>10 ^ 16\<close>, 1 and 1 in project 7
  the investors list holds these three amounts, whose sum is \<open>10 ^ 16 + 2\<close>, and the
  stored fundedAmount is \<open>10 ^ 16\<close>: each addition of 1 rounds back.
\<close>

theorem funded_amount_is_sum_of_investors_counterexample:
  "map_option (\<lambda>p. (fundedAmount p, map inv_amount (investors p)))
     (projects (exec (setup_ops (Num (10 ^ 16)) (Num (10 ^ 17)) (Num 1) @
                      [Op_invest alice 7 (Num (10 ^ 16)) 20 21,
                       Op_deposit alice (Num 2) 22,
                       Op_invest alice 7 (Num 1) 23 24,
                       Op_invest alice 7 (Num 1) 25 26])
                  init_state) 7)
     = Some (Num (10 ^ 16), [Num (10 ^ 16), Num 1, Num 1]) \<and>
   (10 ^ 16 + 1 + 1 :: real) \<noteq> 10 ^ 16"
  by (simp add: setup_then step_def invest_in_project_def deposit_def setup_state_def
        demo_project_def demo_user_def alice_def Let_def update_one_def insert_one_def eval_simps)

subsection \<open>Mobile-money deposits\<close>

lemma confirm_fails_when_completed:
  assumes inv: "momo_deposits_completed st" and adm: "require_admin cu"
    and ex: "\<exists>t \<in> set (transactions st). transaction_ref t = Some ref \<and> tx_type t = TMomoDeposit"
  shows "manual_confirm_deposit st cu ref now = (Inl AlreadyCompleted, st)"
proof -
  let ?P = "\<lambda>t. transaction_ref t = Some ref \<and> tx_type t = TMomoDeposit"
  from ex have "find_one ?P (transactions st) \<noteq> None"
    by (auto simp: find_one_def find_None_iff)
  then obtain tx where found: "find_one ?P (transactions st) = Some tx" by blast
  from find_one_Some[OF found] inv have "tx_status tx = TxCompleted"
    by (auto simp: momo_deposits_completed_def)
  with adm found show ?thesis by (rule confirm_completed)
qed

lemma momo_deposit_success:
  assumes "mobile_money_deposit st cu ph a stamp t1 t2 = (Inr r, st')"
  shows "\<exists>u. users st (userId cu) = Some u \<and> \<not> dle a (Num 0) \<and> \<not> dless a (Num 100) \<and>
           r = Momo_deposited (''WFD'' @ stamp) a \<and>
           st' = step (Op_momo_deposit cu ph a stamp t1 t2) st \<and>
           users st' = (users st)(userId cu \<mapsto> u\<lparr>walletBalance := dadd (walletBalance u) a\<rparr>) \<and>
           transactions st' = transactions st @ [momo_deposit_tx (userId cu) a (''WFD'' @ stamp) t2] \<and>
           momo_transfers st' = momo_transfers st @
             [\<lparr>from_phone = ph, mt_amount = a, mt_transaction_ref = ''WFD'' @ stamp,
               mt_user_id = userId cu, processed_at = t1\<rparr>] \<and>
           projects st' = projects st"
  using assms
  by (auto simp: step_def mobile_money_deposit_def process_deposit_to_personal_momo_def Let_def
        insert_one_def update_one_def momo_deposit_tx_def new_transaction_def
        split: option.splits if_splits)

lemma setup_momo_deposit:
  "fst (mobile_money_deposit (setup_state (Num 1000) (Num 5000) (Num 500)) alice ''677000000''
          (Num 300) ''20250101120000'' 30 31) = Inr (Momo_deposited ''WFD20250101120000'' (Num 300))"
  by (simp add: mobile_money_deposit_def process_deposit_to_personal_momo_def setup_state_def
        alice_def Let_def)

text \<open>
  C10. Starting from the empty store, after any sequence of requests every transaction
  of type momo\_deposit is completed. A successful mobile-money deposit, in any state,
  credits the caller's walletBalance by the amount (one double-precision addition) at
  once, records the transfer, and appends one momo\_deposit transaction that carries the
  returned reference and is already completed. Hence, in a reachable state, a manual
  confirmation by an administrator of any reference carried by a momo\_deposit
  transaction fails with AlreadyCompleted, no manual confirmation changes the state (no
  wallet is credited), and the reference returned by a successful mobile-money deposit
  fails with AlreadyCompleted when it is confirmed.
\<close>

theorem momo_deposits_always_completed:
  "momo_deposits_completed (exec ops init_state) \<and>
   (\<forall>st cu ph a stamp t1 t2 r st'.
      mobile_money_deposit st cu ph a stamp t1 t2 = (Inr r, st') \<longrightarrow>
      (\<exists>u. users st (userId cu) = Some u \<and>
            r = Momo_deposited (''WFD'' @ stamp) a \<and>
            users st' = (users st)(userId cu \<mapsto> u\<lparr>walletBalance := dadd (walletBalance u) a\<rparr>) \<and>
            transactions st' = transactions st @ [momo_deposit_tx (userId cu) a (''WFD'' @ stamp) t2] \<and>
            tx_type (momo_deposit_tx (userId cu) a (''WFD'' @ stamp) t2) = TMomoDeposit \<and>
            tx_status (momo_deposit_tx (userId cu) a (''WFD'' @ stamp) t2) = TxCompleted \<and>
            momo_transfers st' = momo_transfers st @
              [\<lparr>from_phone = ph, mt_amount = a, mt_transaction_ref = ''WFD'' @ stamp,
                mt_user_id = userId cu, processed_at = t1\<rparr>])) \<and>
   (\<forall>cu ref now.
      require_admin cu \<and>
      (\<exists>t \<in> set (transactions (exec ops init_state)).
          transaction_ref t = Some ref \<and> tx_type t = TMomoDeposit) \<longrightarrow>
      manual_confirm_deposit (exec ops init_state) cu ref now
        = (Inl AlreadyCompleted, exec ops init_state)) \<and>
   (\<forall>cu ref now. snd (manual_confirm_deposit (exec ops init_state) cu ref now)
        = exec ops init_state) \<and>
   (\<forall>cu ph a stamp t1 t2 ref amt st' adm now.
      mobile_money_deposit (exec ops init_state) cu ph a stamp t1 t2
        = (Inr (Momo_deposited ref amt), st') \<and> require_admin adm \<longrightarrow>
      manual_confirm_deposit st' adm ref now = (Inl AlreadyCompleted, st'))"
proof -
  have inv: "momo_deposits_completed (exec ops init_state)"
    by (rule exec_momo[OF init_momo])
  have d: "\<exists>u. users st (userId cu) = Some u \<and>
            r = Momo_deposited (''WFD'' @ stamp) a \<and>
            users st' = (users st)(userId cu \<mapsto> u\<lparr>walletBalance := dadd (walletBalance u) a\<rparr>) \<and>
            transactions st' = transactions st @ [momo_deposit_tx (userId cu) a (''WFD'' @ stamp) t2] \<and>
            tx_type (momo_deposit_tx (userId cu) a (''WFD'' @ stamp) t2) = TMomoDeposit \<and>
            tx_status (momo_deposit_tx (userId cu) a (''WFD'' @ stamp) t2) = TxCompleted \<and>
            momo_transfers st' = momo_transfers st @
              [\<lparr>from_phone = ph, mt_amount = a, mt_transaction_ref = ''WFD'' @ stamp,
                mt_user_id = userId cu, processed_at = t1\<rparr>]"
    if "mobile_money_deposit st cu ph a stamp t1 t2 = (Inr r, st')"
    for st cu ph a stamp t1 t2 r st'
    using momo_deposit_success[OF that] by (auto simp: momo_deposit_tx_def)
  have a: "manual_confirm_deposit (exec ops init_state) cu ref now
        = (Inl AlreadyCompleted, exec ops init_state)"
    if "require_admin cu \<and> (\<exists>t \<in> set (transactions (exec ops init_state)).
          transaction_ref t = Some ref \<and> tx_type t = TMomoDeposit)" for cu ref now
    using that confirm_fails_when_completed[OF inv] by blast
  have b: "snd (manual_confirm_deposit (exec ops init_state) cu ref now) = exec ops init_state"
    for cu ref now by (rule confirm_noop[OF inv])
  have c: "manual_confirm_deposit st' adm ref now = (Inl AlreadyCompleted, st')"
    if h: "mobile_money_deposit (exec ops init_state) cu ph a stamp t1 t2
        = (Inr (Momo_deposited ref amt), st') \<and> require_admin adm"
    for cu ph a stamp t1 t2 ref amt st' adm now
  proof -
    from h have run: "mobile_money_deposit (exec ops init_state) cu ph a stamp t1 t2
        = (Inr (Momo_deposited ref amt), st')" and adm: "require_admin adm" by auto
    from momo_deposit_success[OF run] have
      ref: "ref = ''WFD'' @ stamp"
      and st': "st' = step (Op_momo_deposit cu ph a stamp t1 t2) (exec ops init_state)"
      and tx: "transactions st' = transactions (exec ops init_state) @
           [momo_deposit_tx (userId cu) a (''WFD'' @ stamp) t2]"
      by auto
    have inv': "momo_deposits_completed st'" unfolding st' by (rule step_momo[OF inv])
    have "\<exists>t \<in> set (transactions st'). transaction_ref t = Some ref \<and> tx_type t = TMomoDeposit"
      by (simp add: tx ref momo_deposit_tx_def)
    with inv' adm show ?thesis by (rule confirm_fails_when_completed)
  qed
  from inv d a b c show ?thesis by blast
qed

theorem momo_deposits_always_completed_witness:
  "require_admin admin \<and>
   fst (mobile_money_deposit (exec (setup_ops (Num 1000) (Num 5000) (Num 500)) init_state) alice
          ''677000000'' (Num 300) ''20250101120000'' 30 31)
     = Inr (Momo_deposited ''WFD20250101120000'' (Num 300)) \<and>
   map_option walletBalance
     (users (snd (mobile_money_deposit (exec (setup_ops (Num 1000) (Num 5000) (Num 500)) init_state)
                    alice ''677000000'' (Num 300) ''20250101120000'' 30 31)) 1) = Some (Num 1300) \<and>
   map (\<lambda>t. (tx_type t, tx_status t, tx_amount t))
     (transactions (snd (mobile_money_deposit
                           (exec (setup_ops (Num 1000) (Num 5000) (Num 500)) init_state)
                           alice ''677000000'' (Num 300) ''20250101120000'' 30 31)))
     = [(TDeposit, TxCompleted, Num 1000), (TMomoDeposit, TxCompleted, Num 300)] \<and>
   manual_confirm_deposit
     (snd (mobile_money_deposit (exec (setup_ops (Num 1000) (Num 5000) (Num 500)) init_state) alice
             ''677000000'' (Num 300) ''20250101120000'' 30 31)) admin ''WFD20250101120000'' 40
     = (Inl AlreadyCompleted,
        snd (mobile_money_deposit (exec (setup_ops (Num 1000) (Num 5000) (Num 500)) init_state) alice
               ''677000000'' (Num 300) ''20250101120000'' 30 31))"
proof -
  let ?S = "setup_state (Num 1000) (Num 5000) (Num 500)"
  let ?S' = "snd (mobile_money_deposit ?S alice ''677000000'' (Num 300) ''20250101120000'' 30 31)"
  have adm: "require_admin admin" by (simp add: require_admin_def admin_def)
  have e: "exec (setup_ops (Num 1000) (Num 5000) (Num 500)) init_state = ?S"
    by (simp add: exec_setup)
  have run: "mobile_money_deposit ?S alice ''677000000'' (Num 300) ''20250101120000'' 30 31
      = (Inr (Momo_deposited ''WFD20250101120000'' (Num 300)), ?S')"
    using setup_momo_deposit by (metis prod.collapse)
  note T = momo_deposits_always_completed[of "setup_ops (Num 1000) (Num 5000) (Num 500)", unfolded e]
  have "mobile_money_deposit ?S alice ''677000000'' (Num 300) ''20250101120000'' 30 31
      = (Inr (Momo_deposited ''WFD20250101120000'' (Num 300)), ?S') \<and> require_admin admin"
    using run adm by (rule conjI)
  from T[THEN conjunct2, THEN conjunct2, THEN conjunct2, THEN conjunct2, rule_format, OF this]
  have conf: "manual_confirm_deposit ?S' admin ''WFD20250101120000'' 40
      = (Inl AlreadyCompleted, ?S')" .
  from T[THEN conjunct2, THEN conjunct1, rule_format, OF run] obtain u where
    u: "users ?S (userId alice) = Some u"
    and us: "users ?S' = (users ?S)(userId alice \<mapsto> u\<lparr>walletBalance := dadd (walletBalance u) (Num 300)\<rparr>)"
    and tx: "transactions ?S' = transactions ?S @
        [momo_deposit_tx (userId alice) (Num 300) (''WFD'' @ ''20250101120000'') 31]"
    by blast
  have a: "userId alice = 1" by (simp add: alice_def)
  from u have ud: "u = demo_user (dadd (Num 0) (Num 1000))" by (simp add: setup_state_def a)
  have w: "map_option walletBalance (users ?S' 1) = Some (Num 1300)"
    unfolding us by (simp add: a ud demo_user_def eval_simps)
  have t: "map (\<lambda>t. (tx_type t, tx_status t, tx_amount t)) (transactions ?S')
     = [(TDeposit, TxCompleted, Num 1000), (TMomoDeposit, TxCompleted, Num 300)]"
    unfolding tx by (simp add: setup_state_def momo_deposit_tx_def new_transaction_def)
  show ?thesis unfolding e using adm setup_momo_deposit w t conf by blast
qed

subsection \<open>Wallet balances\<close>

text \<open>
  C3 (not met by the code). The guards \<open>amount <= 0\<close> and \<open>walletBalance < amount\<close>
  are false on NaN, and no handler checks that an amount is finite. After Alice has
  registered (walletBalance 0), a deposit of NaN is accepted and leaves her walletBalance
  NaN, for which \<open>0 <= walletBalance\<close> is false; from then on no withdrawal is
  refused (a withdrawal of 1000000 succeeds). A deposit of Infinity followed by a
  withdrawal of Infinity leaves the walletBalance NaN as well.
\<close>

theorem non_finite_amount_breaks_wallet:
  "map_option walletBalance
     (users (exec [Op_register 1 ''Alice'' ''alice@example.org'' 30] init_state) 1) = Some (Num 0) \<and>
   fst (deposit (exec [Op_register 1 ''Alice'' ''alice@example.org'' 30] init_state) alice NaN 10)
     = Inr (Wallet_tx NaN (new_transaction 1 NaN TDeposit TxCompleted 10)) \<and>
   map_option walletBalance
     (users (exec [Op_register 1 ''Alice'' ''alice@example.org'' 30,
                   Op_deposit alice NaN 10] init_state) 1) = Some NaN \<and>
   \<not> dle (Num 0) NaN \<and>
   fst (withdraw (exec [Op_register 1 ''Alice'' ''alice@example.org'' 30,
                        Op_deposit alice NaN 10] init_state) alice (Num 1000000) 20)
     = Inr (Wallet_tx NaN (new_transaction 1 (Num 1000000) TWithdraw TxCompleted 20)) \<and>
   map_option walletBalance
     (users (exec [Op_register 1 ''Alice'' ''alice@example.org'' 30,
                   Op_deposit alice PosInf 10,
                   Op_withdraw alice PosInf 11] init_state) 1) = Some NaN"
  by (simp add: step_def register_def deposit_def withdraw_def init_state_def alice_def
        Let_def update_one_def insert_one_def)

subsection \<open>References\<close>

lemma list_all_update_first:
  "list_all P xs \<Longrightarrow> (\<And>x. P x \<Longrightarrow> P (f x)) \<Longrightarrow> list_all P (update_first Q f xs)"
  by (induction xs) auto

lemma scheme_plain: "ref_follows_scheme (new_transaction u a ty s t)"
  by (simp add: ref_follows_scheme_def new_transaction_def)

lemma scheme_invest:
  "ref_follows_scheme ((new_transaction u a ty s t)\<lparr>tx_projectId := p, tx_projectTitle := ttl\<rparr>)"
  by (simp add: ref_follows_scheme_def new_transaction_def)

lemma scheme_deposit:
  "take 3 r = ''WFD'' \<Longrightarrow>
   ref_follows_scheme ((new_transaction u a TMomoDeposit s t)
       \<lparr>transaction_ref := Some r, tx_notes := n\<rparr>)"
  by (simp add: ref_follows_scheme_def new_transaction_def)

lemma scheme_withdrawal:
  "take 3 r = ''WFW'' \<Longrightarrow>
   ref_follows_scheme ((new_transaction u a TMobileWithdrawal s t)
       \<lparr>transaction_ref := Some r, tx_notes := n\<rparr>)"
  by (simp add: ref_follows_scheme_def new_transaction_def)

lemma scheme_confirmed: "ref_follows_scheme x \<Longrightarrow> ref_follows_scheme (confirmed_tx x a t)"
  by (auto simp: ref_follows_scheme_def confirmed_tx_def split: option.splits)

lemmas scheme_simps = scheme_plain scheme_invest scheme_deposit scheme_withdrawal

lemma step_refs:
  assumes "refs_follow_scheme st"
  shows "refs_follow_scheme (step x st)"
proof (cases x)
  case (Op_manual_confirm cu r t)
  have "list_all ref_follows_scheme
          (update_first (\<lambda>t. transaction_ref t = Some r)
             (\<lambda>ta. confirmed_tx ta (userId cu) t) (transactions st))"
    using assms unfolding refs_follow_scheme_def
    by (rule list_all_update_first) (rule scheme_confirmed)
  then show ?thesis
    using assms Op_manual_confirm
    by (auto simp: step_def manual_confirm_deposit_def refs_follow_scheme_def Let_def
          confirmed_tx_def split: option.splits if_splits)
next
  case (Op_deposit cu a t)
  then show ?thesis using assms
    by (auto simp: step_def deposit_def refs_follow_scheme_def Let_def insert_one_def
          scheme_simps split: option.splits)
next
  case (Op_withdraw cu a t)
  then show ?thesis using assms
    by (auto simp: step_def withdraw_def refs_follow_scheme_def Let_def insert_one_def
          scheme_simps split: option.splits)
next
  case (Op_invest cu p a t1 t2)
  then show ?thesis using assms
    by (auto simp: step_def invest_in_project_def refs_follow_scheme_def Let_def insert_one_def
          scheme_simps split: option.splits)
next
  case (Op_momo_deposit cu ph a s t1 t2)
  then show ?thesis using assms
    by (auto simp: step_def mobile_money_deposit_def process_deposit_to_personal_momo_def
          refs_follow_scheme_def Let_def insert_one_def scheme_simps split: option.splits)
next
  case (Op_momo_withdraw cu ph a s t)
  then show ?thesis using assms
    by (auto simp: step_def mobile_money_withdraw_def refs_follow_scheme_def Let_def
          insert_one_def scheme_simps split: option.splits)
qed (use assms in \<open>auto simp: step_def register_def update_profile_def verify_user_def
       block_user_def create_project_def verify_project_def block_project_def delete_project_def
       review_project_def refs_follow_scheme_def Let_def split: option.splits if_splits\<close>)

lemma exec_refs: "refs_follow_scheme st \<Longrightarrow> refs_follow_scheme (exec xs st)"
  by (induction xs arbitrary: st) (simp_all add: step_refs)

lemma reachable_refs: "refs_follow_scheme (exec ops init_state)"
  by (rule exec_refs) (simp add: refs_follow_scheme_def init_state_def)


subsection \<open>Confirming twice\<close>






end
